theory Spec2Isabelle
  imports Main
begin

section \<open>JavaScript values used by the video service\<close>

text \<open>
  The embedding follows \<^verbatim>\<open>src/lib/video-service.ts\<close>, class \<^verbatim>\<open>VideoService\<close>.

  A \<^typ>\<open>string\<close> stands for a JavaScript string whose UTF-16 code units all lie in
  \<open>0..255\<close>; each \<^typ>\<open>char\<close> is one code unit.

  JavaScript numbers are doubles. Where the service only prints a number, the number is
  represented by the text that \<^verbatim>\<open>Number.prototype.toString\<close> prints for it (\<open>8\<close>,
  \<open>8.5\<close>, \<open>1e+21\<close>, \<open>590295810358705700000\<close>, \<open>NaN\<close>, \<open>Infinity\<close>), so that every
  number is covered and nothing is said about how a double is printed. The status of a
  thrown object is only compared with 401 and 403, and the status of a response is an
  integer from 0 to 999: these two are integers.
\<close>

text \<open>An optional configuration field declared \<^verbatim>\<open>field?: T | null\<close>.\<close>

datatype 'a nullable = Undefined | Null | Value 'a

text \<open>
  A value produced by \<^verbatim>\<open>JSON.parse\<close> (and the argument of \<^verbatim>\<open>JSON.stringify\<close>).
  \<open>JNum t\<close> is the number that prints as \<open>t\<close>.
\<close>

datatype json =
    JNull
  | JBool bool
  | JNum string
  | JStr string
  | JArr "json list"
  | JObj "(string \<times> json) list"

text \<open>
  A value caught by \<^verbatim>\<open>catch (error)\<close>. It is a primitive, or an object (\<^verbatim>\<open>typeof\<close>
  gives \<^verbatim>\<open>'object'\<close>) of which the service reads three things: whether it is an
  \<^verbatim>\<open>instanceof Error\<close>, and its \<^verbatim>\<open>status\<close> and \<^verbatim>\<open>code\<close> properties. A property
  holds a primitive (\<^verbatim>\<open>undefined\<close> when absent) or some object. Callable values are not
  modelled: no transport throws one. \<open>PNum n\<close> is the integer \<open>n\<close>; a number that is
  not an integer behaves as any integer other than 401 and 403 does.
\<close>

datatype prim = PUndefined | PNull | PBool bool | PNum int | PStr string

datatype property = Prim prim | Obj

datatype thrown =
    ThrownPrim prim
  | ThrownObj bool string property property

text \<open>
  What an operation of the service rejects with: \<^verbatim>\<open>new Error(message)\<close> built by the
  service itself, \<^verbatim>\<open>new InvalidApiKeyError()\<close>, a value thrown by a collaborator and
  passed on as it is, or the \<^verbatim>\<open>TypeError\<close> of reading a property of \<^verbatim>\<open>null\<close>.
\<close>

datatype error =
    Error string
  | InvalidApiKeyError
  | Thrown thrown
  | TypeError

subsection \<open>Numerals\<close>

definition isDigit :: "char \<Rightarrow> bool" where
  "isDigit c = (48 \<le> (of_char c :: nat) \<and> (of_char c :: nat) \<le> 57)"

definition digit_val :: "char \<Rightarrow> nat" where
  "digit_val c = of_char c - 48"

definition digit_char :: "nat \<Rightarrow> char" where
  "digit_char d = ''0123456789'' ! d"

function decimal_nat :: "nat \<Rightarrow> string" where
  "decimal_nat n =
     (if n < 10 then [digit_char n]
      else decimal_nat (n div 10) @ [digit_char (n mod 10)])"
  by pat_completeness auto
termination
  by (relation "measure id") auto

declare decimal_nat.simps [simp del]

definition decimal_int :: "int \<Rightarrow> string" where
  "decimal_int i = (if i < 0 then ''-'' @ decimal_nat (nat (- i)) else decimal_nat (nat i))"

definition digits_value :: "string \<Rightarrow> nat" where
  "digits_value z = foldl (\<lambda>a c. 10 * a + digit_val c) 0 z"

subsection \<open>\<^verbatim>\<open>parseInt(string, 10)\<close>\<close>

text \<open>
  ECMAScript \<^verbatim>\<open>parseInt\<close> with radix 10: leading white space is skipped, one sign is read,
  then the longest run of decimal digits; what follows is ignored. No digit gives
  \<^verbatim>\<open>NaN\<close>, here \<^term>\<open>None\<close>. The result is compared with 0 only, and rounding a long
  numeral to a double keeps its sign, so the exact integer stands for the double.
\<close>

definition isWhiteSpace :: "char \<Rightarrow> bool" where
  "isWhiteSpace c = ((of_char c :: nat) \<in> {9, 10, 11, 12, 13, 32, 160})"

definition parseInt10 :: "string \<Rightarrow> int option" where
  "parseInt10 inputString =
     (let s = dropWhile isWhiteSpace inputString;
          negative = (case s of [] \<Rightarrow> False | c # _ \<Rightarrow> c = CHR ''-'');
          s' = (case s of [] \<Rightarrow> []
                | c # cs \<Rightarrow> if c = CHR ''+'' \<or> c = CHR ''-'' then cs else s);
          z = takeWhile isDigit s'
      in if z = [] then None
         else Some ((if negative then - 1 else 1) * int (digits_value z)))"

subsection \<open>\<^verbatim>\<open>ToString\<close> and truthiness of parsed JSON\<close>

fun intercalate :: "string \<Rightarrow> string list \<Rightarrow> string" where
  "intercalate sep [] = []"
| "intercalate sep [x] = x"
| "intercalate sep (x # y # ys) = x @ sep @ intercalate sep (y # ys)"

text \<open>The first error of a list of results, or all the values.\<close>

fun collect :: "(error + string) list \<Rightarrow> error + string list" where
  "collect [] = Inr []"
| "collect (Inl e # rs) = Inl e"
| "collect (Inr x # rs) = (case collect rs of Inl e \<Rightarrow> Inl e | Inr xs \<Rightarrow> Inr (x # xs))"

text \<open>
  \<^verbatim>\<open>new Error(v)\<close> stores \<^verbatim>\<open>String(v)\<close>. An array joins its elements with commas,
  printing \<^verbatim>\<open>null\<close> elements as nothing. A parsed object prints as
  \<^verbatim>\<open>[object Object]\<close> through \<^verbatim>\<open>Object.prototype.toString\<close>, unless it has a key
  \<open>toString\<close> of its own: that value is not callable, \<^verbatim>\<open>valueOf\<close> gives back the
  object, and the conversion throws a \<^verbatim>\<open>TypeError\<close>.
\<close>

fun ToString :: "json \<Rightarrow> error + string" where
  "ToString JNull = Inr ''null''"
| "ToString (JBool b) = Inr (if b then ''true'' else ''false'')"
| "ToString (JNum t) = Inr t"
| "ToString (JStr s) = Inr s"
| "ToString (JArr xs) =
     (case collect (map (\<lambda>x. if x = JNull then Inr [] else ToString x) xs) of
        Inl e \<Rightarrow> Inl e
      | Inr parts \<Rightarrow> Inr (intercalate '','' parts))"
| "ToString (JObj kvs) =
     (if ''toString'' \<in> set (map fst kvs) then Inl TypeError else Inr ''[object Object]'')"

fun truthy :: "json \<Rightarrow> bool" where
  "truthy JNull = False"
| "truthy (JBool b) = b"
| "truthy (JNum t) = (t \<noteq> ''0'' \<and> t \<noteq> ''NaN'')"
| "truthy (JStr s) = (s \<noteq> [])"
| "truthy (JArr xs) = True"
| "truthy (JObj kvs) = True"

text \<open>
  \<^verbatim>\<open>result.error\<close>: reading a property of \<^verbatim>\<open>null\<close> throws; a primitive or an array has
  no such property (\<^term>\<open>None\<close> is \<^verbatim>\<open>undefined\<close>); in an object with a repeated key,
  \<^verbatim>\<open>JSON.parse\<close> kept the last one.
\<close>

definition getProperty :: "json \<Rightarrow> string \<Rightarrow> error + json option" where
  "getProperty v k =
     (case v of
        JNull \<Rightarrow> Inl TypeError
      | JObj kvs \<Rightarrow> Inr (map_of (rev kvs) k)
      | _ \<Rightarrow> Inr None)"

text \<open>\<^verbatim>\<open>new Error(v || fallback)\<close>\<close>

definition Error_or :: "json option \<Rightarrow> string \<Rightarrow> error" where
  "Error_or v fallback =
     (case v of
        None \<Rightarrow> Error fallback
      | Some j \<Rightarrow>
          if truthy j then (case ToString j of Inl e \<Rightarrow> e | Inr message \<Rightarrow> Error message)
          else Error fallback)"

subsection \<open>\<^verbatim>\<open>encodeURIComponent\<close>\<close>

definition hex_char :: "nat \<Rightarrow> char" where
  "hex_char d = ''0123456789ABCDEF'' ! d"

definition percent :: "nat \<Rightarrow> string" where
  "percent b = [CHR ''%'', hex_char (b div 16), hex_char (b mod 16)]"

definition unreserved :: "char \<Rightarrow> bool" where
  "unreserved c =
     (c = CHR 0x27 \<or>
      c \<in> set ''ABCDEFGHIJKLMNOPQRSTUVWXYZabcdefghijklmnopqrstuvwxyz0123456789-_.!~*()'')"

text \<open>A code unit below 128 is one UTF-8 byte, one from 128 to 255 is two.\<close>

definition encodeUnit :: "char \<Rightarrow> string" where
  "encodeUnit c =
     (let n = (of_char c :: nat)
      in if unreserved c then [c]
         else if n < 128 then percent n
         else percent (192 + n div 64) @ percent (128 + n mod 64))"

definition encodeURIComponent :: "string \<Rightarrow> string" where
  "encodeURIComponent s = concat (map encodeUnit s)"

section \<open>Input normalizers\<close>

text \<open>
  The argument of \<^verbatim>\<open>normalizeSeconds\<close> is a number or a string, and all the function
  reads of it is \<^verbatim>\<open>value.toString()\<close> (the template literal of the message prints a
  number the same way). \<open>Number t\<close> is the number that prints as \<open>t\<close>.
\<close>

datatype number_or_string = Number string | String string

fun toString :: "number_or_string \<Rightarrow> string" where
  "toString (Number t) = t"
| "toString (String s) = s"

definition normalizeSeconds :: "number_or_string \<Rightarrow> error + string" where
  "normalizeSeconds v =
     (let secondsValue = toString v;
          numericValue = parseInt10 secondsValue
      in if (case numericValue of None \<Rightarrow> True | Some n \<Rightarrow> n \<le> 0)
         then Inl (Error (''Invalid duration: '' @ toString v @
                          ''. Duration must be a positive number.''))
         else Inr secondsValue)"

subsection \<open>The regular expression \<^verbatim>\<open>/^\d+x\d+$/\<close>\<close>

text \<open>
  The fragment of regular expressions the pattern is written in, and a matcher by
  derivatives. The pattern carries no flag and is anchored at both ends, so
  \<^verbatim>\<open>sizeRegex.test(value)\<close> holds when the whole of \<^verbatim>\<open>value\<close> matches; \<^verbatim>\<open>\d\<close> is an
  ASCII digit.
\<close>

datatype regex =
    Never
  | Empty
  | Digit
  | Chr char
  | Alt regex regex
  | Seq regex regex
  | Star regex
  | Plus regex

fun accepts_empty :: "regex \<Rightarrow> bool" where
  "accepts_empty Never = False"
| "accepts_empty Empty = True"
| "accepts_empty Digit = False"
| "accepts_empty (Chr d) = False"
| "accepts_empty (Alt r s) = (accepts_empty r \<or> accepts_empty s)"
| "accepts_empty (Seq r s) = (accepts_empty r \<and> accepts_empty s)"
| "accepts_empty (Star r) = True"
| "accepts_empty (Plus r) = accepts_empty r"

fun deriv :: "char \<Rightarrow> regex \<Rightarrow> regex" where
  "deriv c Never = Never"
| "deriv c Empty = Never"
| "deriv c Digit = (if isDigit c then Empty else Never)"
| "deriv c (Chr d) = (if c = d then Empty else Never)"
| "deriv c (Alt r s) = Alt (deriv c r) (deriv c s)"
| "deriv c (Seq r s) =
     (if accepts_empty r then Alt (Seq (deriv c r) s) (deriv c s) else Seq (deriv c r) s)"
| "deriv c (Star r) = Seq (deriv c r) (Star r)"
| "deriv c (Plus r) = Seq (deriv c r) (Star r)"

fun test :: "regex \<Rightarrow> string \<Rightarrow> bool" where
  "test r [] = accepts_empty r"
| "test r (c # cs) = test (deriv c r) cs"

definition sizeRegex :: regex where
  "sizeRegex = Seq (Plus Digit) (Seq (Chr (CHR ''x'')) (Plus Digit))"

definition normalizeSize :: "string \<Rightarrow> error + string" where
  "normalizeSize v =
     (if \<not> test sizeRegex v
      then Inl (Error (''Invalid video size format: '' @ v @
                       ''. Must be in format WIDTHxHEIGHT (e.g., 1280x720)''))
      else Inr v)"

text \<open>
  The pattern as the specification words it, \<open><digits>x<digits>\<close>: a non-empty run of
  digits, the letter x, a non-empty run of digits, and nothing else.
\<close>

definition digits :: "string \<Rightarrow> bool" where
  "digits w = (w \<noteq> [] \<and> list_all isDigit w)"

definition matches_size :: "string \<Rightarrow> bool" where
  "matches_size v = (\<exists>w h. digits w \<and> digits h \<and> v = w @ ''x'' @ h)"

text \<open>The words a regular expression denotes, to state what the matcher decides.\<close>

definition conc :: "string set \<Rightarrow> string set \<Rightarrow> string set" where
  "conc A B = {u @ v | u v. u \<in> A \<and> v \<in> B}"

inductive_set rep :: "string set \<Rightarrow> string set" for A :: "string set" where
  rep_nil: "[] \<in> rep A"
| rep_app: "u \<in> A \<Longrightarrow> v \<in> rep A \<Longrightarrow> u @ v \<in> rep A"

fun lang :: "regex \<Rightarrow> string set" where
  "lang Never = {}"
| "lang Empty = {[]}"
| "lang Digit = {[c] | c. isDigit c}"
| "lang (Chr d) = {[d]}"
| "lang (Alt r s) = lang r \<union> lang s"
| "lang (Seq r s) = conc (lang r) (lang s)"
| "lang (Star r) = rep (lang r)"
| "lang (Plus r) = conc (lang r) (rep (lang r))"

section \<open>Configuration, transports and what a call leaves behind\<close>

datatype ApiMode = Backend | Frontend

record ServiceConfig =
  mode :: ApiMode
  clientApiKey :: "string nullable"
  clientPasswordHash :: "string nullable"
  baseURL :: "string option"

text \<open>
  The service tests both secrets for truthiness (\<^verbatim>\<open>!this.config.clientApiKey\<close>,
  \<^verbatim>\<open>this.config.clientPasswordHash ? ... : ...\<close>): \<^verbatim>\<open>undefined\<close>, \<^verbatim>\<open>null\<close> and the
  empty string are falsy. \<^term>\<open>truthy_string\<close> gives the string when it is truthy.
\<close>

definition truthy_string :: "string nullable \<Rightarrow> string option" where
  "truthy_string x =
     (case x of
        Value s \<Rightarrow> if s = [] then None else Some s
      | _ \<Rightarrow> None)"

datatype js_file = File string "nat list"

type_synonym blob = "nat list"

datatype variant = Video | Thumbnail | Spritesheet

fun variant_name :: "variant \<Rightarrow> string" where
  "variant_name Video = ''video''"
| "variant_name Thumbnail = ''thumbnail''"
| "variant_name Spritesheet = ''spritesheet''"

text \<open>
  The argument of \<^verbatim>\<open>createVideo\<close> and the \<^verbatim>\<open>VideoCreateParams\<close> of the SDK have the same
  fields; \<^verbatim>\<open>input_reference\<close> is \<^term>\<open>None\<close> when it is absent or \<^verbatim>\<open>null\<close> (a
  \<^verbatim>\<open>File\<close> is always truthy).
\<close>

record VideoCreateParams =
  model :: string
  prompt :: string
  video_size :: string
  seconds :: string
  input_reference :: "js_file option"

subsection \<open>The backend transport: \<^verbatim>\<open>fetch\<close>\<close>

datatype form_value = FText string | FFile js_file

text \<open>
  A request body is a \<^verbatim>\<open>FormData\<close> (its entries in the order they were appended) or the
  text \<^verbatim>\<open>JSON.stringify\<close> made of a value; the text is kept as the value it serialises.
\<close>

datatype body = FormData "(string \<times> form_value) list" | JsonText json

record request =
  url :: string
  http_method :: "string option"
  headers :: "(string \<times> string) list"
  body :: "body option"

text \<open>
  Of a \<^verbatim>\<open>Response\<close> the service reads \<^verbatim>\<open>ok\<close>, \<^verbatim>\<open>status\<close>, \<^verbatim>\<open>statusText\<close> and the
  promises \<^verbatim>\<open>json()\<close> and \<^verbatim>\<open>blob()\<close>, each of which resolves or rejects. \<^verbatim>\<open>ok\<close> is what
  the Fetch standard says: the status is in the range 200 to 299.
\<close>

record response =
  status :: nat
  statusText :: string
  response_json :: "thrown + json"
  response_blob :: "thrown + blob"

definition ok :: "response \<Rightarrow> bool" where
  "ok r = (200 \<le> status r \<and> status r \<le> 299)"

text \<open>
  \<^verbatim>\<open>JSON.stringify\<close> of an object literal leaves out the properties whose value is
  \<^verbatim>\<open>undefined\<close> (\<^term>\<open>None\<close>) and keeps the others in order.
\<close>

definition JSON_stringify :: "(string \<times> json option) list \<Rightarrow> body" where
  "JSON_stringify props =
     JsonText (JObj (concat (map (\<lambda>(k, v). case v of None \<Rightarrow> [] | Some j \<Rightarrow> [(k, j)]) props)))"

definition json_of_nullable :: "string nullable \<Rightarrow> json option" where
  "json_of_nullable x =
     (case x of Undefined \<Rightarrow> None | Null \<Rightarrow> Some JNull | Value s \<Rightarrow> Some (JStr s))"

subsection \<open>The frontend transport: the SDK client\<close>

text \<open>
  \<^verbatim>\<open>createFrontendOpenAI\<close> (module \<^verbatim>\<open>./openai-client\<close>) is a parameter: from an API key
  and a base address it gives a client, whose five \<^verbatim>\<open>videos\<close> methods resolve or reject.
  The content a download resolves to has a \<^verbatim>\<open>blob()\<close> promise of its own.
\<close>

record content =
  content_blob :: "thrown + blob"

record openai =
  videos_create :: "VideoCreateParams \<Rightarrow> thrown + json"
  videos_remix :: "string \<Rightarrow> string \<Rightarrow> thrown + json"
  videos_retrieve :: "string \<Rightarrow> thrown + json"
  videos_delete :: "string \<Rightarrow> thrown + json"
  videos_downloadContent :: "string \<Rightarrow> variant \<Rightarrow> thrown + content"

record world =
  createFrontendOpenAI :: "string \<Rightarrow> string option \<Rightarrow> openai"
  fetch :: "request \<Rightarrow> thrown + response"

subsection \<open>Observable events\<close>

datatype sdk_call =
    VideosCreate VideoCreateParams
  | VideosRemix string string
  | VideosRetrieve string
  | VideosDelete string
  | VideosDownloadContent string variant

text \<open>
  Every operation returns the events it caused, in order, with its result: the
  construction of an SDK client, a call of an SDK method, a \<^verbatim>\<open>fetch\<close>.
\<close>

datatype event =
    NewClient string "string option"
  | SdkCall sdk_call
  | FetchCall request

section \<open>Error translation\<close>

fun is_object :: "thrown \<Rightarrow> bool" where
  "is_object (ThrownPrim p) = False"
| "is_object (ThrownObj e m s c) = True"

fun instanceof_Error :: "thrown \<Rightarrow> bool" where
  "instanceof_Error (ThrownPrim p) = False"
| "instanceof_Error (ThrownObj e m s c) = e"

fun status_of :: "thrown \<Rightarrow> property" where
  "status_of (ThrownPrim p) = Prim PUndefined"
| "status_of (ThrownObj e m s c) = s"

fun code_of :: "thrown \<Rightarrow> property" where
  "code_of (ThrownPrim p) = Prim PUndefined"
| "code_of (ThrownObj e m s c) = c"

fun typeof_number :: "property \<Rightarrow> bool" where
  "typeof_number (Prim (PNum n)) = True"
| "typeof_number _ = False"

text \<open>\<^verbatim>\<open>handleFrontendError\<close> never returns: the model gives what it throws.\<close>

definition handleFrontendError :: "thrown \<Rightarrow> error" where
  "handleFrontendError err =
     (if is_object err \<and>
         ((typeof_number (status_of err) \<and>
             (status_of err = Prim (PNum 401) \<or> status_of err = Prim (PNum 403))) \<or>
          code_of err = Prim (PStr ''invalid_api_key''))
      then InvalidApiKeyError
      else if instanceof_Error err then Thrown err
      else Error ''Unexpected error while communicating with OpenAI.'')"

text \<open>
  The backend failure path of \<^verbatim>\<open>createVideo\<close>, \<^verbatim>\<open>remixVideo\<close> and \<^verbatim>\<open>deleteVideo\<close>:
  \<^verbatim>\<open>const result = await response.json(); throw new Error(result.error || fallback)\<close>.
\<close>

definition json_failure :: "response \<Rightarrow> string \<Rightarrow> error" where
  "json_failure r fallback =
     (case response_json r of
        Inl t \<Rightarrow> Thrown t
      | Inr result \<Rightarrow>
          (case getProperty result ''error'' of
             Inl e \<Rightarrow> e
           | Inr v \<Rightarrow> Error_or v fallback))"

text \<open>\<^verbatim>\<open>return await response.json()\<close>\<close>

definition json_result :: "response \<Rightarrow> error + json" where
  "json_result r = (case response_json r of Inl t \<Rightarrow> Inl (Thrown t) | Inr j \<Rightarrow> Inr j)"

text \<open>
  The \<^verbatim>\<open>headers\<close> of \<^verbatim>\<open>retrieveVideo\<close>, \<^verbatim>\<open>deleteVideo\<close> and \<^verbatim>\<open>downloadContent\<close>:
  \<^verbatim>\<open>clientPasswordHash ? { 'x-password-hash': clientPasswordHash } : {}\<close>.
\<close>

definition hash_headers :: "ServiceConfig \<Rightarrow> (string \<times> string) list" where
  "hash_headers config =
     (case truthy_string (clientPasswordHash config) of
        Some h \<Rightarrow> [(''x-password-hash'', h)]
      | None \<Rightarrow> [])"

section \<open>The five operations\<close>

definition createVideo ::
  "ServiceConfig \<Rightarrow> world \<Rightarrow> VideoCreateParams \<Rightarrow> event list \<times> (error + json)" where
  "createVideo config w params =
     (case normalizeSeconds (String (seconds params)) of
        Inl e \<Rightarrow> ([], Inl e)
      | Inr normalizedSeconds \<Rightarrow>
     (case normalizeSize (video_size params) of
        Inl e \<Rightarrow> ([], Inl e)
      | Inr normalizedSize \<Rightarrow>
     (if mode config = Frontend then
        (case truthy_string (clientApiKey config) of
           None \<Rightarrow> ([], Inl (Error ''API key is required for frontend mode''))
         | Some key \<Rightarrow>
             (let openai = createFrontendOpenAI w key (baseURL config);
                  createParams = \<lparr>model = model params, prompt = prompt params,
                                  video_size = normalizedSize, seconds = normalizedSeconds,
                                  input_reference = input_reference params\<rparr>
              in ([NewClient key (baseURL config), SdkCall (VideosCreate createParams)],
                  (case videos_create openai createParams of
                     Inr video \<Rightarrow> Inr video
                   | Inl err \<Rightarrow> Inl (handleFrontendError err)))))
      else
        (let apiFormData =
               (case truthy_string (clientPasswordHash config) of
                  Some h \<Rightarrow> [(''passwordHash'', FText h)]
                | None \<Rightarrow> []) @
               [(''model'', FText (model params)),
                (''prompt'', FText (prompt params)),
                (''size'', FText normalizedSize),
                (''seconds'', FText normalizedSeconds)] @
               (case input_reference params of
                  Some f \<Rightarrow> [(''input_reference'', FFile f)]
                | None \<Rightarrow> []);
             req = \<lparr>url = ''/api/videos'', http_method = Some ''POST'', headers = [],
                    body = Some (FormData apiFormData)\<rparr>
         in ([FetchCall req],
             (case fetch w req of
                Inl t \<Rightarrow> Inl (Thrown t)
              | Inr r \<Rightarrow>
                  if \<not> ok r
                  then Inl (json_failure r
                         (''API request failed with status '' @ decimal_nat (status r)))
                  else json_result r))))))"

definition remixVideo ::
  "ServiceConfig \<Rightarrow> world \<Rightarrow> string \<Rightarrow> string \<Rightarrow> event list \<times> (error + json)" where
  "remixVideo config w sourceVideoId prompt' =
     (if mode config = Frontend then
        (case truthy_string (clientApiKey config) of
           None \<Rightarrow> ([], Inl (Error ''API key is required for frontend mode''))
         | Some key \<Rightarrow>
             (let openai = createFrontendOpenAI w key (baseURL config)
              in ([NewClient key (baseURL config), SdkCall (VideosRemix sourceVideoId prompt')],
                  (case videos_remix openai sourceVideoId prompt' of
                     Inr video \<Rightarrow> Inr video
                   | Inl err \<Rightarrow> Inl (handleFrontendError err)))))
      else
        (let req = \<lparr>url = ''/api/videos/'' @ sourceVideoId @ ''/remix'',
                    http_method = Some ''POST'',
                    headers = [(''Content-Type'', ''application/json'')],
                    body = Some (JSON_stringify
                             [(''prompt'', Some (JStr prompt')),
                              (''passwordHash'', json_of_nullable (clientPasswordHash config))])\<rparr>
         in ([FetchCall req],
             (case fetch w req of
                Inl t \<Rightarrow> Inl (Thrown t)
              | Inr r \<Rightarrow>
                  if \<not> ok r
                  then Inl (json_failure r
                         (''API request failed with status '' @ decimal_nat (status r)))
                  else json_result r))))"

definition retrieveVideo ::
  "ServiceConfig \<Rightarrow> world \<Rightarrow> string \<Rightarrow> event list \<times> (error + json)" where
  "retrieveVideo config w videoId =
     (if mode config = Frontend then
        (case truthy_string (clientApiKey config) of
           None \<Rightarrow> ([], Inl (Error ''API key is required for frontend mode''))
         | Some key \<Rightarrow>
             (let openai = createFrontendOpenAI w key (baseURL config)
              in ([NewClient key (baseURL config), SdkCall (VideosRetrieve videoId)],
                  (case videos_retrieve openai videoId of
                     Inr video \<Rightarrow> Inr video
                   | Inl err \<Rightarrow> Inl (handleFrontendError err)))))
      else
        (let req = \<lparr>url = ''/api/videos/'' @ videoId, http_method = None,
                    headers = hash_headers config, body = None\<rparr>
         in ([FetchCall req],
             (case fetch w req of
                Inl t \<Rightarrow> Inl (Thrown t)
              | Inr r \<Rightarrow>
                  if \<not> ok r
                  then Inl (Error (''Failed to fetch job status: '' @ statusText r))
                  else json_result r))))"

definition deleteVideo ::
  "ServiceConfig \<Rightarrow> world \<Rightarrow> string \<Rightarrow> event list \<times> (error + unit)" where
  "deleteVideo config w videoId =
     (if mode config = Frontend then
        (case truthy_string (clientApiKey config) of
           None \<Rightarrow> ([], Inl (Error ''API key is required for frontend mode''))
         | Some key \<Rightarrow>
             (let openai = createFrontendOpenAI w key (baseURL config)
              in ([NewClient key (baseURL config), SdkCall (VideosDelete videoId)],
                  (case videos_delete openai videoId of
                     Inr deleted \<Rightarrow> Inr ()
                   | Inl err \<Rightarrow> Inl (handleFrontendError err)))))
      else
        (let req = \<lparr>url = ''/api/videos/'' @ videoId, http_method = Some ''DELETE'',
                    headers = hash_headers config, body = None\<rparr>
         in ([FetchCall req],
             (case fetch w req of
                Inl t \<Rightarrow> Inl (Thrown t)
              | Inr r \<Rightarrow>
                  if \<not> ok r
                  then Inl (json_failure r ''Failed to delete video'')
                  else Inr ()))))"

text \<open>
  The second argument of \<^verbatim>\<open>downloadContent\<close> is \<^term>\<open>None\<close> when the caller leaves it
  out (or passes \<^verbatim>\<open>undefined\<close>); the parameter's default then applies.
\<close>

definition downloadContent ::
  "ServiceConfig \<Rightarrow> world \<Rightarrow> string \<Rightarrow> variant option \<Rightarrow> event list \<times> (error + blob)" where
  "downloadContent config w videoId variant_arg =
     (let variant = (case variant_arg of None \<Rightarrow> Video | Some v \<Rightarrow> v)
      in if mode config = Frontend then
        (case truthy_string (clientApiKey config) of
           None \<Rightarrow> ([], Inl (Error ''API key is required for frontend mode''))
         | Some key \<Rightarrow>
             (let openai = createFrontendOpenAI w key (baseURL config)
              in ([NewClient key (baseURL config),
                   SdkCall (VideosDownloadContent videoId variant)],
                  (case videos_downloadContent openai videoId variant of
                     Inl err \<Rightarrow> Inl (handleFrontendError err)
                   | Inr content \<Rightarrow>
                       (case content_blob content of
                          Inl err \<Rightarrow> Inl (handleFrontendError err)
                        | Inr b \<Rightarrow> Inr b)))))
      else
        (let url' = ''/api/videos/'' @ videoId @ ''/content?variant='' @ variant_name variant;
             fullUrl = (case truthy_string (clientPasswordHash config) of
                          Some h \<Rightarrow> url' @ ''&password-hash='' @ encodeURIComponent h
                        | None \<Rightarrow> url');
             req = \<lparr>url = fullUrl, http_method = None, headers = hash_headers config, body = None\<rparr>
         in ([FetchCall req],
             (case fetch w req of
                Inl t \<Rightarrow> Inl (Thrown t)
              | Inr r \<Rightarrow>
                  if \<not> ok r
                  then Inl (Error (''Failed to download '' @ variant_name variant @ '': '' @
                                   statusText r))
                  else (case response_blob r of
                          Inl t \<Rightarrow> Inl (Thrown t)
                        | Inr b \<Rightarrow> Inr b)))))"

subsection \<open>Any of the five\<close>

text \<open>
  A call of the caller-facing surface, and what it resolves to, to state properties of
  every operation at once.
\<close>

datatype operation =
    CreateVideo VideoCreateParams
  | RemixVideo string string
  | RetrieveVideo string
  | DeleteVideo string
  | DownloadContent string "variant option"

datatype outcome = Job json | Done | Content blob

fun invoke :: "ServiceConfig \<Rightarrow> world \<Rightarrow> operation \<Rightarrow> event list \<times> (error + outcome)" where
  "invoke config w (CreateVideo params) = map_prod id (map_sum id Job) (createVideo config w params)"
| "invoke config w (RemixVideo i p) = map_prod id (map_sum id Job) (remixVideo config w i p)"
| "invoke config w (RetrieveVideo i) = map_prod id (map_sum id Job) (retrieveVideo config w i)"
| "invoke config w (DeleteVideo i) = map_prod id (map_sum id (\<lambda>u. Done)) (deleteVideo config w i)"
| "invoke config w (DownloadContent i v) =
     map_prod id (map_sum id Content) (downloadContent config w i v)"

section \<open>Notions the properties are stated with\<close>

text \<open>
  The validation \<^verbatim>\<open>createVideo\<close> runs before it looks at the mode: the error of the
  first normalizer that fails. The other operations validate nothing.
\<close>

fun validation :: "operation \<Rightarrow> error option" where
  "validation (CreateVideo params) =
     (case normalizeSeconds (String (seconds params)) of
        Inl e \<Rightarrow> Some e
      | Inr _ \<Rightarrow>
          (case normalizeSize (video_size params) of
             Inl e \<Rightarrow> Some e
           | Inr _ \<Rightarrow> None))"
| "validation _ = None"

text \<open>The operations whose backend failure path reads the JSON body of the response.\<close>

fun parses_error_body :: "operation \<Rightarrow> bool" where
  "parses_error_body (CreateVideo params) = True"
| "parses_error_body (RemixVideo i p) = True"
| "parses_error_body (DeleteVideo i) = True"
| "parses_error_body (RetrieveVideo i) = False"
| "parses_error_body (DownloadContent i v) = False"

text \<open>
  The address each operation fetches in backend mode when nothing is appended to it, and
  the success value it promises when the transport delivers a job \<open>j\<close> or a blob \<open>b\<close>.
\<close>

fun endpoint :: "operation \<Rightarrow> string" where
  "endpoint (CreateVideo params) = ''/api/videos''"
| "endpoint (RemixVideo i p) = ''/api/videos/'' @ i @ ''/remix''"
| "endpoint (RetrieveVideo i) = ''/api/videos/'' @ i"
| "endpoint (DeleteVideo i) = ''/api/videos/'' @ i"
| "endpoint (DownloadContent i v) =
     ''/api/videos/'' @ i @ ''/content?variant='' @
     variant_name (case v of None \<Rightarrow> Video | Some x \<Rightarrow> x)"

fun promised :: "operation \<Rightarrow> json \<Rightarrow> blob \<Rightarrow> outcome" where
  "promised (CreateVideo params) j b = Job j"
| "promised (RemixVideo i p) j b = Job j"
| "promised (RetrieveVideo i) j b = Job j"
| "promised (DeleteVideo i) j b = Done"
| "promised (DownloadContent i v) j b = Content b"

text \<open>The names of the fields of a multipart body, and of the keys of a JSON body.\<close>

fun form_fields :: "body option \<Rightarrow> string list" where
  "form_fields (Some (FormData fs)) = map fst fs"
| "form_fields _ = []"

fun json_keys :: "body option \<Rightarrow> string list" where
  "json_keys (Some (JsonText (JObj kvs))) = map fst kvs"
| "json_keys _ = []"

text \<open>
  Mocked transports. Every method of every SDK client resolves to the job \<open>j\<close>, and a
  download to content whose blob is \<open>b\<close>; every fetch resolves to a response with a
  2xx status that carries the same \<open>j\<close> and \<open>b\<close>.
\<close>

definition sdk_resolves :: "world \<Rightarrow> json \<Rightarrow> blob \<Rightarrow> bool" where
  "sdk_resolves w j b =
     (\<forall>key base.
        (\<forall>p. videos_create (createFrontendOpenAI w key base) p = Inr j) \<and>
        (\<forall>i p. videos_remix (createFrontendOpenAI w key base) i p = Inr j) \<and>
        (\<forall>i. videos_retrieve (createFrontendOpenAI w key base) i = Inr j) \<and>
        (\<forall>i. \<exists>d. videos_delete (createFrontendOpenAI w key base) i = Inr d) \<and>
        (\<forall>i v. \<exists>c. videos_downloadContent (createFrontendOpenAI w key base) i v = Inr c \<and>
                    content_blob c = Inr b))"

definition proxy_resolves :: "world \<Rightarrow> json \<Rightarrow> blob \<Rightarrow> bool" where
  "proxy_resolves w j b =
     (\<forall>rq. \<exists>r. fetch w rq = Inr r \<and> ok r \<and> response_json r = Inr j \<and>
                response_blob r = Inr b)"

text \<open>
  The SDK call an operation makes in frontend mode. \<^verbatim>\<open>createVideo\<close> passes the size and
  duration its normalizers returned, which are the strings it was given.
\<close>

fun call_of :: "operation \<Rightarrow> sdk_call" where
  "call_of (CreateVideo params) =
     VideosCreate \<lparr>model = model params, prompt = prompt params,
                   video_size = video_size params, seconds = seconds params,
                   input_reference = input_reference params\<rparr>"
| "call_of (RemixVideo i p) = VideosRemix i p"
| "call_of (RetrieveVideo i) = VideosRetrieve i"
| "call_of (DeleteVideo i) = VideosDelete i"
| "call_of (DownloadContent i v) =
     VideosDownloadContent i (case v of None \<Rightarrow> Video | Some x \<Rightarrow> x)"

text \<open>
  The client \<open>c\<close> rejects that one call with \<open>e\<close>; for a download, the call itself or
  the \<^verbatim>\<open>blob()\<close> of what it resolved to.
\<close>

fun rejects :: "openai \<Rightarrow> sdk_call \<Rightarrow> thrown \<Rightarrow> bool" where
  "rejects c (VideosCreate p) e = (videos_create c p = Inl e)"
| "rejects c (VideosRemix i p) e = (videos_remix c i p = Inl e)"
| "rejects c (VideosRetrieve i) e = (videos_retrieve c i = Inl e)"
| "rejects c (VideosDelete i) e = (videos_delete c i = Inl e)"
| "rejects c (VideosDownloadContent i v) e =
     (case videos_downloadContent c i v of
        Inl t \<Rightarrow> t = e
      | Inr content \<Rightarrow> content_blob content = Inl e)"

text \<open>A value that exposes the status or the code of a rejected credential.\<close>

definition credential_rejected :: "thrown \<Rightarrow> bool" where
  "credential_rejected e =
     (is_object e \<and>
      (status_of e = Prim (PNum 401) \<or> status_of e = Prim (PNum 403) \<or>
       code_of e = Prim (PStr ''invalid_api_key'')))"

subsection \<open>Concrete transports and inputs\<close>

definition mock_client :: "thrown + json \<Rightarrow> thrown + content \<Rightarrow> openai" where
  "mock_client j c =
     \<lparr>videos_create = (\<lambda>p. j), videos_remix = (\<lambda>i p. j), videos_retrieve = (\<lambda>i. j),
      videos_delete = (\<lambda>i. j), videos_downloadContent = (\<lambda>i v. c)\<rparr>"

definition mock_world :: "thrown + json \<Rightarrow> thrown + content \<Rightarrow> thrown + response \<Rightarrow> world" where
  "mock_world j c r = \<lparr>createFrontendOpenAI = (\<lambda>key base. mock_client j c), fetch = (\<lambda>rq. r)\<rparr>"

definition sample_job :: json where
  "sample_job = JObj [(''id'', JStr ''video_123''), (''status'', JStr ''queued'')]"

definition sample_blob :: blob where
  "sample_blob = [0, 0, 0, 24]"

definition ok_response :: response where
  "ok_response =
     \<lparr>status = 200, statusText = ''OK'', response_json = Inr sample_job,
      response_blob = Inr sample_blob\<rparr>"

definition ok_world :: world where
  "ok_world = mock_world (Inr sample_job) (Inr \<lparr>content_blob = Inr sample_blob\<rparr>) (Inr ok_response)"

definition quota_response :: response where
  "quota_response =
     \<lparr>status = 429, statusText = ''Too Many Requests'',
      response_json = Inr (JObj [(''error'', JStr ''quota exceeded'')]),
      response_blob = Inr []\<rparr>"

definition empty_error_response :: response where
  "empty_error_response =
     \<lparr>status = 429, statusText = ''Too Many Requests'',
      response_json = Inr (JObj [(''error'', JStr [])]),
      response_blob = Inr []\<rparr>"

definition unauthorized :: thrown where
  "unauthorized = ThrownObj True ''Incorrect API key provided'' (Prim (PNum 401)) (Prim PUndefined)"

definition timed_out :: thrown where
  "timed_out = ThrownObj True ''Request timed out.'' (Prim PUndefined) (Prim PUndefined)"

definition failing_world :: "thrown \<Rightarrow> world" where
  "failing_world e = mock_world (Inl e) (Inl e) (Inl e)"

definition proxy_world :: "response \<Rightarrow> world" where
  "proxy_world r = mock_world (Inr sample_job) (Inr \<lparr>content_blob = Inr sample_blob\<rparr>) (Inr r)"

definition frontend_config :: "string nullable \<Rightarrow> ServiceConfig" where
  "frontend_config key =
     \<lparr>mode = Frontend, clientApiKey = key, clientPasswordHash = Undefined, baseURL = None\<rparr>"

definition backend_config :: "string nullable \<Rightarrow> ServiceConfig" where
  "backend_config h =
     \<lparr>mode = Backend, clientApiKey = Undefined, clientPasswordHash = h, baseURL = None\<rparr>"

definition cat_params :: "string \<Rightarrow> VideoCreateParams" where
  "cat_params secs =
     \<lparr>model = ''sora-2'', prompt = ''cat'', video_size = ''1280x720'', seconds = secs,
      input_reference = None\<rparr>"

section \<open>What the matcher decides\<close>

lemma accepts_empty_lang: "accepts_empty r \<longleftrightarrow> [] \<in> lang r"
  by (induction r) (auto simp: conc_def intro: rep.rep_nil)

lemma rep_cons_split:
  assumes "u \<in> rep A" and "u = c # w"
  shows "\<exists>v t. c # v \<in> A \<and> t \<in> rep A \<and> w = v @ t"
  using assms
proof (induction arbitrary: w)
  case rep_nil
  then show ?case by simp
next
  case (rep_app a b)
  show ?case
  proof (cases a)
    case Nil
    with rep_app show ?thesis by simp
  next
    case (Cons d v)
    with rep_app.prems have "d = c" and "w = v @ b" by simp_all
    with Cons rep_app.hyps show ?thesis by blast
  qed
qed

lemma rep_cons_iff:
  "c # w \<in> rep A \<longleftrightarrow> (\<exists>v t. c # v \<in> A \<and> t \<in> rep A \<and> w = v @ t)"
proof
  assume "c # w \<in> rep A"
  then show "\<exists>v t. c # v \<in> A \<and> t \<in> rep A \<and> w = v @ t"
    using rep_cons_split by blast
next
  assume "\<exists>v t. c # v \<in> A \<and> t \<in> rep A \<and> w = v @ t"
  then obtain v t where "c # v \<in> A" "t \<in> rep A" "w = v @ t" by blast
  then show "c # w \<in> rep A"
    using rep.rep_app [of "c # v" A t] by simp
qed

lemma conc_cons_iff:
  "c # w \<in> conc A B \<longleftrightarrow>
     (\<exists>v t. c # v \<in> A \<and> t \<in> B \<and> w = v @ t) \<or> ([] \<in> A \<and> c # w \<in> B)"
  unfolding conc_def
  by (auto simp: Cons_eq_append_conv)

lemma deriv_lang: "w \<in> lang (deriv c r) \<longleftrightarrow> c # w \<in> lang r"
proof (induction r arbitrary: w)
  case (Seq r s)
  then show ?case
    by (auto simp: conc_cons_iff accepts_empty_lang) (auto simp: conc_def)
next
  case (Star r)
  then show ?case
    by (auto simp: rep_cons_iff) (auto simp: conc_def)
next
  case (Plus r)
  then show ?case
    by (auto simp: conc_cons_iff rep_cons_iff) (auto simp: conc_def)
qed auto

lemma test_lang: "test r w \<longleftrightarrow> w \<in> lang r"
  by (induction w arbitrary: r) (simp_all add: accepts_empty_lang deriv_lang)

lemma rep_Digit: "w \<in> rep {[c] |c. isDigit c} \<longleftrightarrow> list_all isDigit w"
proof
  assume "w \<in> rep {[c] |c. isDigit c}"
  then show "list_all isDigit w"
    by induction auto
next
  assume "list_all isDigit w"
  then show "w \<in> rep {[c] |c. isDigit c}"
  proof (induction w)
    case Nil
    show ?case by (rule rep.rep_nil)
  next
    case (Cons c w)
    then have "[c] \<in> {[c] |c. isDigit c}" and "w \<in> rep {[c] |c. isDigit c}" by simp_all
    then have "[c] @ w \<in> rep {[c] |c. isDigit c}" by (rule rep.rep_app)
    then show ?case by simp
  qed
qed

lemma plus_Digit: "w \<in> conc {[c] |c. isDigit c} (rep {[c] |c. isDigit c}) \<longleftrightarrow> digits w"
proof (cases w)
  case Nil
  then show ?thesis by (simp add: digits_def conc_def)
next
  case (Cons c u)
  then show ?thesis
    by (auto simp: digits_def conc_cons_iff rep_Digit)
qed

lemma conc_iff: "v \<in> conc A B \<longleftrightarrow> (\<exists>a b. a \<in> A \<and> b \<in> B \<and> v = a @ b)"
  by (auto simp: conc_def)

lemma lang_Plus_Digit: "w \<in> lang (Plus Digit) \<longleftrightarrow> digits w"
  by (simp add: plus_Digit)

lemma lang_sizeRegex:
  "v \<in> lang sizeRegex \<longleftrightarrow> (\<exists>w h. digits w \<and> digits h \<and> v = w @ ''x'' @ h)"
proof -
  have "v \<in> lang sizeRegex \<longleftrightarrow>
        (\<exists>w h. w \<in> lang (Plus Digit) \<and> h \<in> lang (Plus Digit) \<and> v = w @ ''x'' @ h)"
    unfolding sizeRegex_def lang.simps(6) lang.simps(4) conc_iff
    by auto
  then show ?thesis
    by (simp only: lang_Plus_Digit)
qed

lemma test_sizeRegex: "test sizeRegex v \<longleftrightarrow> matches_size v"
  by (simp add: test_lang matches_size_def lang_sizeRegex)

section \<open>Decimal numerals and \<^verbatim>\<open>parseInt\<close>\<close>

lemma digit_char_of: "d < 10 \<Longrightarrow> (of_char (digit_char d) :: nat) = 48 + d"
proof -
  assume "d < 10"
  then have "d \<in> {0, 1, 2, 3, 4, 5, 6, 7, 8, 9}" by auto
  then show ?thesis by (auto simp: digit_char_def)
qed

lemma isDigit_digit_char: "d < 10 \<Longrightarrow> isDigit (digit_char d)"
  by (simp add: isDigit_def digit_char_of)

lemma digit_val_digit_char: "d < 10 \<Longrightarrow> digit_val (digit_char d) = d"
  by (simp add: digit_val_def digit_char_of)

lemma decimal_nat_digits: "list_all isDigit (decimal_nat n)"
proof (induction n rule: decimal_nat.induct)
  case (1 n)
  show ?case
  proof (cases "n < 10")
    case True
    then show ?thesis by (subst decimal_nat.simps) (simp add: isDigit_digit_char)
  next
    case False
    with 1 show ?thesis by (subst decimal_nat.simps) (simp add: isDigit_digit_char)
  qed
qed

lemma decimal_nat_nonempty: "decimal_nat n \<noteq> []"
  by (subst decimal_nat.simps) simp

lemma digits_value_snoc: "digits_value (z @ [c]) = 10 * digits_value z + digit_val c"
  by (simp add: digits_value_def)

lemma digits_value_decimal_nat: "digits_value (decimal_nat n) = n"
proof (induction n rule: decimal_nat.induct)
  case (1 n)
  show ?case
  proof (cases "n < 10")
    case True
    then show ?thesis
      by (subst decimal_nat.simps) (simp add: digits_value_def digit_val_digit_char)
  next
    case False
    with 1 have "digits_value (decimal_nat (n div 10)) = n div 10" by simp
    with False show ?thesis
      by (subst decimal_nat.simps) (simp add: digits_value_snoc digit_val_digit_char)
  qed
qed

lemma digit_not_space: "isDigit c \<Longrightarrow> \<not> isWhiteSpace c"
  by (auto simp: isDigit_def isWhiteSpace_def)

lemma digit_not_sign: "isDigit c \<Longrightarrow> c \<noteq> CHR ''+'' \<and> c \<noteq> CHR ''-''"
  by (auto simp: isDigit_def)

lemma takeWhile_all: "list_all P xs \<Longrightarrow> takeWhile P xs = xs"
  by (induction xs) simp_all

lemma parseInt10_digits:
  assumes "z \<noteq> []" and "list_all isDigit z"
  shows "parseInt10 z = Some (int (digits_value z))"
    and "parseInt10 (''-'' @ z) = Some (- int (digits_value z))"
proof -
  from assms obtain c cs where z: "z = c # cs" and c: "isDigit c"
    by (cases z) auto
  from assms(2) have tw: "takeWhile isDigit z = z" by (rule takeWhile_all)
  from c have ns: "\<not> isWhiteSpace c" and sg: "c \<noteq> CHR ''+''" "c \<noteq> CHR ''-''"
    using digit_not_space digit_not_sign by blast+
  show "parseInt10 z = Some (int (digits_value z))"
    using tw ns sg by (simp add: parseInt10_def z)
  have "\<not> isWhiteSpace CHR ''-''" by (simp add: isWhiteSpace_def)
  then show "parseInt10 (''-'' @ z) = Some (- int (digits_value z))"
    using tw by (simp add: parseInt10_def z)
qed

lemma parseInt10_decimal_int: "parseInt10 (decimal_int n) = Some n"
proof (cases "n < 0")
  case True
  then show ?thesis
    using parseInt10_digits(2) [OF decimal_nat_nonempty decimal_nat_digits, of "nat (- n)"]
    by (simp add: decimal_int_def digits_value_decimal_nat)
next
  case False
  then show ?thesis
    using parseInt10_digits(1) [OF decimal_nat_nonempty decimal_nat_digits, of "nat n"]
    by (simp add: decimal_int_def digits_value_decimal_nat)
qed

lemma of_char_zero: "((of_char c :: nat) = 48) = (c = CHR ''0'')"
proof -
  have "((of_char c :: nat) = of_char (CHR ''0'')) = (c = CHR ''0'')"
    by (rule of_char_eq_iff)
  then show ?thesis by simp
qed

lemma digit_val_pos: "isDigit c \<Longrightarrow> (0 < digit_val c) = (c \<noteq> CHR ''0'')"
  using of_char_zero [of c] by (auto simp: isDigit_def digit_val_def)

lemma foldl_digits_pos:
  "list_all isDigit z \<Longrightarrow>
   (0 < foldl (\<lambda>a c. 10 * a + digit_val c) a z) = (0 < a \<or> (\<exists>c \<in> set z. c \<noteq> CHR ''0''))"
proof (induction z arbitrary: a)
  case Nil
  then show ?case by simp
next
  case (Cons d z)
  then have "isDigit d" and "list_all isDigit z" by simp_all
  with Cons.IH [of "10 * a + digit_val d"] digit_val_pos [of d] show ?case
    by auto
qed

lemma digits_value_pos:
  "list_all isDigit z \<Longrightarrow> (0 < digits_value z) = (\<exists>c \<in> set z. c \<noteq> CHR ''0'')"
  using foldl_digits_pos [of z 0] by (simp add: digits_value_def)

lemma parseInt10_no_digit:
  assumes "list_all (\<lambda>c. \<not> isDigit c) s"
  shows "parseInt10 s = None"
proof -
  have sub: "set (dropWhile isWhiteSpace s) \<subseteq> set s"
    by (auto dest: set_dropWhileD)
  from assms have nd: "\<And>c. c \<in> set s \<Longrightarrow> \<not> isDigit c"
    by (simp add: list_all_iff)
  have tw: "\<And>u. set u \<subseteq> set s \<Longrightarrow> takeWhile isDigit u = []"
  proof -
    fix u
    assume "set u \<subseteq> set s"
    then show "takeWhile isDigit u = []"
      using nd by (cases u) auto
  qed
  show ?thesis
  proof (cases "dropWhile isWhiteSpace s")
    case Nil
    show ?thesis
      unfolding parseInt10_def Let_def Nil by simp
  next
    case (Cons c cs)
    with sub have "set (c # cs) \<subseteq> set s" by simp
    then have t: "takeWhile isDigit (c # cs) = []" "takeWhile isDigit cs = []"
      using tw [of "c # cs"] tw [of cs] by auto
    show ?thesis
      unfolding parseInt10_def Let_def Cons using t by simp
  qed
qed

lemma normalizeSeconds_digits:
  assumes "digits z" and "toString v = z"
  shows "normalizeSeconds v =
           (if \<exists>c \<in> set z. c \<noteq> CHR ''0'' then Inr z
            else Inl (Error (''Invalid duration: '' @ z @
                             ''. Duration must be a positive number.'')))"
proof -
  from assms(1) have z: "z \<noteq> []" "list_all isDigit z"
    by (simp_all add: digits_def)
  have "parseInt10 z = Some (int (digits_value z))"
    using z by (rule parseInt10_digits(1))
  then show ?thesis
    using assms(2) digits_value_pos [OF z(2)]
    by (auto simp: normalizeSeconds_def Let_def)
qed

lemma normalizeSeconds_negative:
  assumes "digits z" and "toString v = ''-'' @ z"
  shows "normalizeSeconds v =
           Inl (Error (''Invalid duration: '' @ ''-'' @ z @
                       ''. Duration must be a positive number.''))"
proof -
  from assms(1) have z: "z \<noteq> []" "list_all isDigit z"
    by (simp_all add: digits_def)
  have "parseInt10 (''-'' @ z) = Some (- int (digits_value z))"
    using z by (rule parseInt10_digits(2))
  then show ?thesis
    using assms(2) by (simp add: normalizeSeconds_def Let_def)
qed

lemma normalizeSeconds_no_digit:
  assumes "list_all (\<lambda>c. \<not> isDigit c) (toString v)"
  shows "normalizeSeconds v =
           Inl (Error (''Invalid duration: '' @ toString v @
                       ''. Duration must be a positive number.''))"
  using parseInt10_no_digit [OF assms] by (simp add: normalizeSeconds_def Let_def)

lemma normalizeSeconds_canonical:
  assumes "0 < n" and "toString v = decimal_int n"
  shows "normalizeSeconds v = Inr (decimal_int n)"
  using assms parseInt10_decimal_int [of n] by (simp add: normalizeSeconds_def Let_def)

lemma createVideo_invalid_seconds:
  "normalizeSeconds (String (seconds params)) = Inl e \<Longrightarrow> createVideo config w params = ([], Inl e)"
  by (simp add: createVideo_def)

section \<open>Evaluating the normalizers and the operations\<close>

lemmas ops_defs =
  createVideo_def remixVideo_def retrieveVideo_def deleteVideo_def downloadContent_def

lemma eval_seconds_8: "normalizeSeconds (String ''8'') = Inr ''8''"
  by (simp add: normalizeSeconds_def parseInt10_def isWhiteSpace_def isDigit_def digits_value_def digit_val_def)

lemma eval_seconds_0: "normalizeSeconds (String ''0'') = Inl (Error ''Invalid duration: 0. Duration must be a positive number.'')"
  by (simp add: normalizeSeconds_def parseInt10_def isWhiteSpace_def isDigit_def digits_value_def digit_val_def)

lemma eval_size_720: "normalizeSize ''1280x720'' = Inr ''1280x720''"
  by (simp add: normalizeSize_def sizeRegex_def isDigit_def)

lemma handleFrontendError_cases:
  "handleFrontendError e =
     (if credential_rejected e then InvalidApiKeyError
      else if instanceof_Error e then Thrown e
      else Error ''Unexpected error while communicating with OpenAI.'')"
  by (auto simp: handleFrontendError_def credential_rejected_def)

lemma validated_params:
  assumes "validation (CreateVideo params) = None"
  shows "normalizeSeconds (String (seconds params)) = Inr (seconds params)"
    and "normalizeSize (video_size params) = Inr (video_size params)"
  using assms
  by (auto simp: normalizeSeconds_def normalizeSize_def Let_def split: sum.splits if_splits)

lemma frontend_rejection:
  assumes "mode config = Frontend"
    and "truthy_string (clientApiKey config) = Some key"
    and "validation op = None"
    and "rejects (createFrontendOpenAI w key (baseURL config)) (call_of op) e"
  shows "invoke config w op =
           ([NewClient key (baseURL config), SdkCall (call_of op)],
            Inl (handleFrontendError e))"
proof (cases op)
  case (CreateVideo params)
  with assms validated_params [of params] show ?thesis
    by (simp add: createVideo_def Let_def)
next
  case (RemixVideo i p)
  with assms show ?thesis
    by (simp add: remixVideo_def Let_def)
next
  case (RetrieveVideo i)
  with assms show ?thesis
    by (simp add: retrieveVideo_def Let_def)
next
  case (DeleteVideo i)
  with assms show ?thesis
    by (simp add: deleteVideo_def Let_def)
next
  case (DownloadContent i v)
  with assms show ?thesis
    by (auto simp: downloadContent_def Let_def split: sum.splits)
qed

lemma no_key_result:
  assumes "mode config = Frontend" and "truthy_string (clientApiKey config) = None"
  shows "fst (invoke config w op) = [] \<and>
         snd (invoke config w op) =
           Inl (case validation op of
                  Some e \<Rightarrow> e
                | None \<Rightarrow> Error ''API key is required for frontend mode'')"
  using assms
  by (cases op) (auto simp: ops_defs split: sum.splits)

lemma failing_world_rejects:
  "rejects (createFrontendOpenAI (failing_world e) key base) c e"
  by (cases c) (simp_all add: failing_world_def mock_world_def mock_client_def)

lemma frontend_resolves:
  assumes "mode cf = Frontend" and "truthy_string (clientApiKey cf) = Some k"
    and "sdk_resolves w j b"
  shows "snd (invoke cf w op) =
           (case validation op of Some e \<Rightarrow> Inl e | None \<Rightarrow> Inr (promised op j b))"
proof (cases op)
  case (CreateVideo params)
  with assms show ?thesis
    by (auto simp: createVideo_def sdk_resolves_def Let_def split: sum.splits)
next
  case (RemixVideo i p)
  with assms show ?thesis by (simp add: remixVideo_def sdk_resolves_def)
next
  case (RetrieveVideo i)
  with assms show ?thesis by (simp add: retrieveVideo_def sdk_resolves_def)
next
  case (DeleteVideo i)
  from assms(3) obtain d where "videos_delete (createFrontendOpenAI w k (baseURL cf)) i = Inr d"
    unfolding sdk_resolves_def by blast
  with DeleteVideo assms show ?thesis by (simp add: deleteVideo_def)
next
  case (DownloadContent i v)
  let ?v = "case v of None \<Rightarrow> Video | Some x \<Rightarrow> x"
  from assms(3) obtain c
    where "videos_downloadContent (createFrontendOpenAI w k (baseURL cf)) i ?v = Inr c"
      and "content_blob c = Inr b"
    unfolding sdk_resolves_def by blast
  with DownloadContent assms show ?thesis by (simp add: downloadContent_def Let_def)
qed

lemma proxy_json:
  assumes "proxy_resolves w j b"
  shows "(case fetch w rq of
            Inl t \<Rightarrow> Inl (Thrown t)
          | Inr r \<Rightarrow> if \<not> ok r then Inl (F r) else json_result r) = Inr j"
proof -
  from assms obtain r where "fetch w rq = Inr r" "ok r" "response_json r = Inr j"
    unfolding proxy_resolves_def by blast
  then show ?thesis by (simp add: json_result_def)
qed

lemma proxy_unit:
  assumes "proxy_resolves w j b"
  shows "(case fetch w rq of
            Inl t \<Rightarrow> Inl (Thrown t)
          | Inr r \<Rightarrow> if \<not> ok r then Inl (F r) else Inr ()) = Inr ()"
proof -
  from assms obtain r where "fetch w rq = Inr r" "ok r"
    unfolding proxy_resolves_def by blast
  then show ?thesis by simp
qed

lemma proxy_blob:
  assumes "proxy_resolves w j b"
  shows "(case fetch w rq of
            Inl t \<Rightarrow> Inl (Thrown t)
          | Inr r \<Rightarrow>
              if \<not> ok r then Inl (F r)
              else (case response_blob r of Inl t \<Rightarrow> Inl (Thrown t) | Inr x \<Rightarrow> Inr x)) = Inr b"
proof -
  from assms obtain r where "fetch w rq = Inr r" "ok r" "response_blob r = Inr b"
    unfolding proxy_resolves_def by blast
  then show ?thesis by simp
qed

lemma backend_resolves:
  assumes "mode cb = Backend" and "proxy_resolves w j b"
  shows "snd (invoke cb w op) =
           (case validation op of Some e \<Rightarrow> Inl e | None \<Rightarrow> Inr (promised op j b))"
proof (cases op)
  case (CreateVideo params)
  with assms(1) show ?thesis
    by (auto simp: createVideo_def Let_def proxy_json [OF assms(2)] split: sum.splits)
next
  case (RemixVideo i p)
  with assms(1) show ?thesis
    by (simp add: remixVideo_def proxy_json [OF assms(2)])
next
  case (RetrieveVideo i)
  with assms(1) show ?thesis
    by (simp add: retrieveVideo_def proxy_json [OF assms(2)])
next
  case (DeleteVideo i)
  with assms(1) show ?thesis
    by (simp add: deleteVideo_def proxy_unit [OF assms(2)])
next
  case (DownloadContent i v)
  with assms(1) show ?thesis
    by (simp add: downloadContent_def Let_def proxy_blob [OF assms(2)])
qed

lemma validation_not_key_error:
  "validation op = Some e \<Longrightarrow> e \<noteq> Error ''API key is required for frontend mode''"
  by (cases op)
    (auto simp: normalizeSeconds_def normalizeSize_def Let_def split: sum.splits if_splits)

lemma validation_fails:
  "validation op = Some e \<Longrightarrow> invoke config w op = ([], Inl e)"
  by (cases op) (auto simp: createVideo_def split: sum.splits)

lemma backend_issues_request:
  assumes "mode config = Backend" and "validation op = None"
  shows "\<exists>rq. fst (invoke config w op) = [FetchCall rq] \<and>
           (truthy_string (clientPasswordHash config) = None \<longrightarrow>
              url rq = endpoint op \<and>
              ''x-password-hash'' \<notin> set (map fst (headers rq)) \<and>
              ''passwordHash'' \<notin> set (form_fields (body rq))) \<and>
           (clientPasswordHash config = Undefined \<longrightarrow>
              ''passwordHash'' \<notin> set (json_keys (body rq)))"
proof (cases op)
  case (CreateVideo params)
  with assms show ?thesis
    by (auto simp: createVideo_def Let_def split: sum.splits option.splits)
next
  case (RemixVideo i p)
  with assms show ?thesis
    by (auto simp: remixVideo_def Let_def JSON_stringify_def json_of_nullable_def
        truthy_string_def split: nullable.splits)
next
  case (RetrieveVideo i)
  with assms show ?thesis
    by (auto simp: retrieveVideo_def Let_def hash_headers_def)
next
  case (DeleteVideo i)
  with assms show ?thesis
    by (auto simp: deleteVideo_def Let_def hash_headers_def)
next
  case (DownloadContent i v)
  with assms show ?thesis
    by (auto simp: downloadContent_def hash_headers_def Let_def)
qed

lemma json_failure_error_field:
  assumes "response_json r = Inr (JObj kvs)"
    and "map_of (rev kvs) ''error'' = Some (JStr m)" and "m \<noteq> []"
  shows "json_failure r fallback = Error m"
  using assms by (simp add: json_failure_def getProperty_def Error_or_def)

lemma d429: "decimal_nat 429 = ''429''"
  by (simp add: decimal_nat.simps digit_char_def)

lemma sdk_resolves_ok_world: "sdk_resolves ok_world sample_job sample_blob"
  by (simp add: sdk_resolves_def ok_world_def mock_world_def mock_client_def)

lemma proxy_resolves_ok_world: "proxy_resolves ok_world sample_job sample_blob"
  by (simp add: proxy_resolves_def ok_world_def mock_world_def ok_response_def ok_def)

lemma encode_sample: "encodeURIComponent ''5e/8 8'' = ''5e%2F8%208''"
  by (simp add: encodeURIComponent_def encodeUnit_def unreserved_def percent_def hex_char_def)

section \<open>Properties of the service\<close>

text \<open>
  C1 (as amended). \<^verbatim>\<open>normalizeSeconds\<close> takes a number or a string and reads its text,
  \<^verbatim>\<open>value.toString()\<close>. When the text is a run of digits, it is accepted exactly when
  one of the digits is not 0, and is returned as it was written: the canonical numeral
  of a positive integer comes back as that numeral. When the text is a minus sign and a
  run of digits, or has no digit at all, the call fails with the error
  \<open>Invalid duration\<close>. When the duration given to \<^verbatim>\<open>createVideo\<close> is refused,
  \<^verbatim>\<open>createVideo\<close> fails with that error and has caused no event: no client was built,
  no SDK method called, nothing fetched.
\<close>

theorem normalizeSeconds_on_numerals:
  "(digits z \<and> toString v = z \<longrightarrow>
      normalizeSeconds v =
        (if \<exists>c \<in> set z. c \<noteq> CHR ''0'' then Inr z
         else Inl (Error (''Invalid duration: '' @ z @
                          ''. Duration must be a positive number.'')))) \<and>
   (digits z \<and> toString v = ''-'' @ z \<longrightarrow>
      normalizeSeconds v =
        Inl (Error (''Invalid duration: '' @ ''-'' @ z @
                    ''. Duration must be a positive number.''))) \<and>
   (list_all (\<lambda>c. \<not> isDigit c) (toString v) \<longrightarrow>
      normalizeSeconds v =
        Inl (Error (''Invalid duration: '' @ toString v @
                    ''. Duration must be a positive number.''))) \<and>
   (0 < n \<and> toString v = decimal_int n \<longrightarrow> normalizeSeconds v = Inr (decimal_int n)) \<and>
   (\<forall>e. normalizeSeconds (String (seconds params)) = Inl e \<longrightarrow>
        createVideo config w params = ([], Inl e))"
  using normalizeSeconds_digits [of z v] normalizeSeconds_negative [of z v]
    normalizeSeconds_no_digit [of v] normalizeSeconds_canonical [of n v]
    createVideo_invalid_seconds [of params _ config w]
  by blast

theorem normalizeSeconds_on_numerals_witness:
  "digits ''12'' \<and> normalizeSeconds (String ''12'') = Inr ''12'' \<and>
   digits ''0'' \<and>
   normalizeSeconds (Number ''0'') =
     Inl (Error ''Invalid duration: 0. Duration must be a positive number.'') \<and>
   normalizeSeconds (Number ''-5'') =
     Inl (Error ''Invalid duration: -5. Duration must be a positive number.'') \<and>
   list_all (\<lambda>c. \<not> isDigit c) ''NaN'' \<and>
   normalizeSeconds (Number ''NaN'') =
     Inl (Error ''Invalid duration: NaN. Duration must be a positive number.'') \<and>
   (0::int) < 8 \<and> decimal_int 8 = ''8'' \<and> normalizeSeconds (Number ''8'') = Inr ''8'' \<and>
   normalizeSeconds (String (seconds (cat_params ''0''))) =
     Inl (Error ''Invalid duration: 0. Duration must be a positive number.'') \<and>
   createVideo (backend_config Undefined) ok_world (cat_params ''0'') =
     ([], Inl (Error ''Invalid duration: 0. Duration must be a positive number.''))"
proof -
  have g: "digits ''12''" "digits ''0''" "digits ''5''"
    by (simp_all add: digits_def isDigit_def)
  have a: "list_all (\<lambda>c. \<not> isDigit c) ''NaN''"
    by (simp add: isDigit_def)
  have d: "decimal_int 8 = ''8''"
    by (simp add: decimal_int_def decimal_nat.simps digit_char_def)
  have s: "seconds (cat_params ''0'') = ''0''"
    by (simp add: cat_params_def)
  note t = normalizeSeconds_on_numerals
  show ?thesis
    using t [of "''12''" "String ''12''", THEN conjunct1]
      t [of "''0''" "Number ''0''", THEN conjunct1]
      t [of "''5''" "Number ''-5''", THEN conjunct2, THEN conjunct1]
      t [of _ "Number ''NaN''", THEN conjunct2, THEN conjunct2, THEN conjunct1]
      t [of _ "Number ''8''" 8, THEN conjunct2, THEN conjunct2, THEN conjunct2, THEN conjunct1]
      t [of "''0''" "String ''0''" _ "cat_params ''0''" "backend_config Undefined" ok_world]
      g a d s
    by simp
qed

text \<open>
  C1 as the specification states it fails: the string \<open>08\<close> parses to 8 and is accepted,
  and what comes back is \<open>08\<close>, not the canonical numeral \<open>8\<close>.
\<close>

theorem normalizeSeconds_not_canonical:
  "parseInt10 ''08'' = Some 8 \<and>
   decimal_int 8 = ''8'' \<and>
   normalizeSeconds (String ''08'') = Inr ''08'' \<and>
   normalizeSeconds (String ''08'') \<noteq> Inr (decimal_int 8)"
  by (simp add: normalizeSeconds_def parseInt10_def isWhiteSpace_def isDigit_def
      digits_value_def digit_val_def decimal_int_def decimal_nat.simps digit_char_def)

text \<open>
  C2 (as amended). In frontend mode with no API key (\<^verbatim>\<open>undefined\<close>, \<^verbatim>\<open>null\<close> or the
  empty string), every operation fails without having caused any event: no SDK client is
  built and no transport is invoked. The error is \<open>API key is required for frontend mode\<close>,
  except that \<^verbatim>\<open>createVideo\<close> validates its duration and size first, and fails with the
  validation error when one of them is refused.
\<close>

theorem frontend_without_key:
  assumes "mode config = Frontend" and "truthy_string (clientApiKey config) = None"
  shows "fst (invoke config w op) = [] \<and>
         snd (invoke config w op) =
           Inl (case validation op of
                  Some e \<Rightarrow> e
                | None \<Rightarrow> Error ''API key is required for frontend mode'')"
  using assms by (rule no_key_result)

theorem frontend_without_key_witness:
  "mode (frontend_config Undefined) = Frontend \<and>
   truthy_string (clientApiKey (frontend_config Undefined)) = None \<and>
   invoke (frontend_config Undefined) ok_world (CreateVideo (cat_params ''8'')) =
     ([], Inl (Error ''API key is required for frontend mode'')) \<and>
   invoke (frontend_config (Value [])) ok_world (DownloadContent ''video_123'' None) =
     ([], Inl (Error ''API key is required for frontend mode'')) \<and>
   invoke (frontend_config Null) ok_world (CreateVideo (cat_params ''0'')) =
     ([], Inl (Error ''Invalid duration: 0. Duration must be a positive number.''))"
proof -
  have m: "\<And>k. mode (frontend_config k) = Frontend"
    by (simp add: frontend_config_def)
  have k: "truthy_string (clientApiKey (frontend_config Undefined)) = None"
    "truthy_string (clientApiKey (frontend_config (Value []))) = None"
    "truthy_string (clientApiKey (frontend_config Null)) = None"
    by (simp_all add: frontend_config_def truthy_string_def)
  have v: "validation (CreateVideo (cat_params ''8'')) = None"
    "validation (CreateVideo (cat_params ''0'')) =
       Some (Error ''Invalid duration: 0. Duration must be a positive number.'')"
    by (simp_all add: cat_params_def eval_seconds_8 eval_seconds_0 eval_size_720)
  show ?thesis
    using frontend_without_key [OF m k(1), of ok_world "CreateVideo (cat_params ''8'')"]
      frontend_without_key [OF m k(2), of ok_world "DownloadContent ''video_123'' None"]
      frontend_without_key [OF m k(3), of ok_world "CreateVideo (cat_params ''0'')"]
      m k(1) v
    by (simp add: prod_eq_iff)
qed

text \<open>
  C2 as the specification states it fails: with no API key and the duration \<open>0\<close>,
  \<^verbatim>\<open>createVideo\<close> fails with the validation error, not with the configuration error.
\<close>

theorem createVideo_validates_before_key_check:
  "mode (frontend_config Undefined) = Frontend \<and>
   clientApiKey (frontend_config Undefined) = Undefined \<and>
   createVideo (frontend_config Undefined) ok_world (cat_params ''0'') =
     ([], Inl (Error ''Invalid duration: 0. Duration must be a positive number.'')) \<and>
   snd (createVideo (frontend_config Undefined) ok_world (cat_params ''0'')) \<noteq>
     Inl (Error ''API key is required for frontend mode'')"
  by (simp add: createVideo_def cat_params_def eval_seconds_0 frontend_config_def)

text \<open>
  C3. In frontend mode, for every operation called with an API key configured and an
  input that passes validation: the operation builds the client and makes its SDK call,
  and when that call rejects with an object whose \<^verbatim>\<open>status\<close> is the number 401 or 403,
  or whose \<^verbatim>\<open>code\<close> is the string \<open>invalid_api_key\<close>, the operation fails with
  \<^verbatim>\<open>InvalidApiKeyError\<close>, whatever the message of that object; when it rejects with any
  other value that is an \<^verbatim>\<open>Error\<close>, the operation fails with the very value that was
  thrown.
\<close>

theorem frontend_error_translation:
  assumes "mode config = Frontend"
    and "truthy_string (clientApiKey config) = Some key"
    and "validation op = None"
    and "rejects (createFrontendOpenAI w key (baseURL config)) (call_of op) e"
  shows "fst (invoke config w op) = [NewClient key (baseURL config), SdkCall (call_of op)] \<and>
         (credential_rejected e \<longrightarrow> snd (invoke config w op) = Inl InvalidApiKeyError) \<and>
         (\<not> credential_rejected e \<and> instanceof_Error e \<longrightarrow>
            snd (invoke config w op) = Inl (Thrown e))"
  using frontend_rejection [OF assms]
  by (simp add: handleFrontendError_cases)

theorem frontend_error_translation_witness:
  "mode (frontend_config (Value ''sk-test'')) = Frontend \<and>
   truthy_string (clientApiKey (frontend_config (Value ''sk-test''))) = Some ''sk-test'' \<and>
   validation (DeleteVideo ''video_123'') = None \<and>
   rejects (createFrontendOpenAI (failing_world unauthorized) ''sk-test'' None)
     (call_of (DeleteVideo ''video_123'')) unauthorized \<and>
   credential_rejected unauthorized \<and>
   invoke (frontend_config (Value ''sk-test'')) (failing_world unauthorized)
     (DeleteVideo ''video_123'') =
     ([NewClient ''sk-test'' None, SdkCall (VideosDelete ''video_123'')],
      Inl InvalidApiKeyError) \<and>
   validation (CreateVideo (cat_params ''8'')) = None \<and>
   \<not> credential_rejected timed_out \<and> instanceof_Error timed_out \<and>
   invoke (frontend_config (Value ''sk-test'')) (failing_world timed_out)
     (CreateVideo (cat_params ''8'')) =
     ([NewClient ''sk-test'' None, SdkCall (VideosCreate (cat_params ''8''))],
      Inl (Thrown timed_out))"
proof -
  let ?cfg = "frontend_config (Value ''sk-test'')"
  have m: "mode ?cfg = Frontend"
    by (simp add: frontend_config_def)
  have k: "truthy_string (clientApiKey ?cfg) = Some ''sk-test''"
    by (simp add: frontend_config_def truthy_string_def)
  have b: "baseURL ?cfg = None"
    by (simp add: frontend_config_def)
  have v: "validation (DeleteVideo ''video_123'') = None"
    "validation (CreateVideo (cat_params ''8'')) = None"
    by (simp_all add: cat_params_def eval_seconds_8 eval_size_720)
  have r: "credential_rejected unauthorized" "\<not> credential_rejected timed_out"
    "instanceof_Error timed_out"
    by (simp_all add: credential_rejected_def unauthorized_def timed_out_def)
  have c: "call_of (CreateVideo (cat_params ''8'')) = VideosCreate (cat_params ''8'')"
    by (simp add: cat_params_def)
  note j = failing_world_rejects [of _ "''sk-test''" "baseURL ?cfg"]
  show ?thesis
    using frontend_error_translation [OF m k v(1) j, of unauthorized]
      frontend_error_translation [OF m k v(2) j, of timed_out]
      failing_world_rejects [of unauthorized "''sk-test''" None "call_of (DeleteVideo ''video_123'')"]
      m k b v r c
    by (simp add: prod_eq_iff)
qed

text \<open>
  C4 (as amended). In backend mode, for \<^verbatim>\<open>createVideo\<close>, \<^verbatim>\<open>remixVideo\<close> and
  \<^verbatim>\<open>deleteVideo\<close>: when the response to the request issued is not 2xx and its body parses
  as a JSON object whose \<open>error\<close> field is a non-empty string, the operation fails with
  an \<^verbatim>\<open>Error\<close> whose message is that string.
\<close>

theorem backend_error_message:
  assumes "mode config = Backend"
    and "parses_error_body op"
    and "fst (invoke config w op) = [FetchCall rq]"
    and "fetch w rq = Inr r"
    and "\<not> ok r"
    and "response_json r = Inr (JObj kvs)"
    and "map_of (rev kvs) ''error'' = Some (JStr m)"
    and "m \<noteq> []"
  shows "snd (invoke config w op) = Inl (Error m)"
proof -
  note jf = json_failure_error_field [OF assms(6,7,8)]
  show ?thesis
  proof (cases op)
    case (CreateVideo params)
    with assms(1,3,4,5) show ?thesis
      by (auto simp: createVideo_def Let_def jf split: sum.splits)
  next
    case (RemixVideo i p)
    with assms(1,3,4,5) show ?thesis
      by (auto simp: remixVideo_def Let_def jf)
  next
    case (DeleteVideo i)
    with assms(1,3,4,5) show ?thesis
      by (auto simp: deleteVideo_def Let_def jf)
  next
    case (RetrieveVideo i)
    with assms(2) show ?thesis by simp
  next
    case (DownloadContent i v)
    with assms(2) show ?thesis by simp
  qed
qed

theorem backend_error_message_witness:
  "mode (backend_config Undefined) = Backend \<and>
   parses_error_body (DeleteVideo ''video_123'') \<and>
   fst (invoke (backend_config Undefined) (proxy_world quota_response) (DeleteVideo ''video_123'')) =
     [FetchCall \<lparr>url = ''/api/videos/video_123'', http_method = Some ''DELETE'', headers = [],
                 body = None\<rparr>] \<and>
   fetch (proxy_world quota_response)
     \<lparr>url = ''/api/videos/video_123'', http_method = Some ''DELETE'', headers = [],
      body = None\<rparr> = Inr quota_response \<and>
   \<not> ok quota_response \<and>
   response_json quota_response = Inr (JObj [(''error'', JStr ''quota exceeded'')]) \<and>
   map_of (rev [(''error'', JStr ''quota exceeded'')]) ''error'' = Some (JStr ''quota exceeded'') \<and>
   ''quota exceeded'' \<noteq> [] \<and>
   snd (invoke (backend_config Undefined) (proxy_world quota_response) (DeleteVideo ''video_123'')) =
     Inl (Error ''quota exceeded'')"
proof -
  let ?rq = "\<lparr>url = ''/api/videos/video_123'', http_method = Some ''DELETE'', headers = [],
              body = None\<rparr>"
  have m: "mode (backend_config Undefined) = Backend"
    by (simp add: backend_config_def)
  have p: "parses_error_body (DeleteVideo ''video_123'')"
    by simp
  have t: "fst (invoke (backend_config Undefined) (proxy_world quota_response)
             (DeleteVideo ''video_123'')) = [FetchCall ?rq]"
    by (simp add: deleteVideo_def backend_config_def hash_headers_def truthy_string_def Let_def)
  have f: "fetch (proxy_world quota_response) ?rq = Inr quota_response"
    by (simp add: proxy_world_def mock_world_def)
  have n: "\<not> ok quota_response"
    by (simp add: ok_def quota_response_def)
  have j: "response_json quota_response = Inr (JObj [(''error'', JStr ''quota exceeded'')])"
    by (simp add: quota_response_def)
  have l: "map_of (rev [(''error'', JStr ''quota exceeded'')]) ''error'' =
             Some (JStr ''quota exceeded'')"
    by simp
  have e: "''quota exceeded'' \<noteq> []"
    by simp
  show ?thesis
    using backend_error_message [OF m p t f n j l e] m p t f n j
    by simp
qed

text \<open>
  C4 as the specification states it fails. \<^verbatim>\<open>retrieveVideo\<close> answers the body
  \<open>{"error":"quota exceeded"}\<close> of a 429 response with a message made of the status text;
  and where the body is read, an \<open>error\<close> field that is the empty string is replaced by
  the fallback message.
\<close>

theorem backend_error_message_not_for_all:
  "\<not> ok quota_response \<and>
   response_json quota_response = Inr (JObj [(''error'', JStr ''quota exceeded'')]) \<and>
   snd (invoke (backend_config Undefined) (proxy_world quota_response)
          (RetrieveVideo ''video_123'')) =
     Inl (Error ''Failed to fetch job status: Too Many Requests'') \<and>
   \<not> ok empty_error_response \<and>
   response_json empty_error_response = Inr (JObj [(''error'', JStr [])]) \<and>
   snd (invoke (backend_config Undefined) (proxy_world empty_error_response)
          (CreateVideo (cat_params ''8''))) =
     Inl (Error ''API request failed with status 429'')"
  by (simp add: ok_def retrieveVideo_def createVideo_def backend_config_def proxy_world_def
      mock_world_def cat_params_def eval_seconds_8 eval_size_720 Let_def truthy_string_def
      json_failure_def getProperty_def Error_or_def d429 hash_headers_def
      quota_response_def empty_error_response_def)


text \<open>
  C5. In backend mode, \<^verbatim>\<open>createVideo\<close> with model \<open>sora-2\<close>, prompt \<open>cat\<close>, size
  \<open>1280x720\<close>, seconds \<open>8\<close> and no attachment issues exactly one request: a POST to
  \<open>/api/videos\<close> whose multipart body holds the fields model, prompt, size and seconds
  with those values, preceded by \<open>passwordHash\<close> exactly when a (non-empty) password hash
  is configured, and nothing else.
\<close>

theorem createVideo_multipart_body:
  assumes "mode config = Backend"
  shows "fst (createVideo config w
            \<lparr>model = ''sora-2'', prompt = ''cat'', video_size = ''1280x720'', seconds = ''8'',
             input_reference = None\<rparr>) =
         [FetchCall
            \<lparr>url = ''/api/videos'', http_method = Some ''POST'', headers = [],
             body = Some (FormData
               ((case truthy_string (clientPasswordHash config) of
                   Some h \<Rightarrow> [(''passwordHash'', FText h)]
                 | None \<Rightarrow> []) @
                [(''model'', FText ''sora-2''), (''prompt'', FText ''cat''),
                 (''size'', FText ''1280x720''), (''seconds'', FText ''8'')]))\<rparr>]"
  using assms
  by (simp add: createVideo_def eval_seconds_8 eval_size_720 Let_def)

theorem createVideo_multipart_body_witness:
  "mode (backend_config (Value ''5e88'')) = Backend \<and>
   fst (createVideo (backend_config (Value ''5e88'')) ok_world
          \<lparr>model = ''sora-2'', prompt = ''cat'', video_size = ''1280x720'', seconds = ''8'',
           input_reference = None\<rparr>) =
     [FetchCall
        \<lparr>url = ''/api/videos'', http_method = Some ''POST'', headers = [],
         body = Some (FormData
           [(''passwordHash'', FText ''5e88''),
            (''model'', FText ''sora-2''), (''prompt'', FText ''cat''),
            (''size'', FText ''1280x720''), (''seconds'', FText ''8'')])\<rparr>] \<and>
   mode (backend_config Undefined) = Backend \<and>
   fst (createVideo (backend_config Undefined) ok_world
          \<lparr>model = ''sora-2'', prompt = ''cat'', video_size = ''1280x720'', seconds = ''8'',
           input_reference = None\<rparr>) =
     [FetchCall
        \<lparr>url = ''/api/videos'', http_method = Some ''POST'', headers = [],
         body = Some (FormData
           [(''model'', FText ''sora-2''), (''prompt'', FText ''cat''),
            (''size'', FText ''1280x720''), (''seconds'', FText ''8'')])\<rparr>]"
proof -
  have m: "\<And>h. mode (backend_config h) = Backend"
    by (simp add: backend_config_def)
  have h: "truthy_string (clientPasswordHash (backend_config (Value ''5e88''))) = Some ''5e88''"
    "truthy_string (clientPasswordHash (backend_config Undefined)) = None"
    by (simp_all add: backend_config_def truthy_string_def)
  show ?thesis
    using createVideo_multipart_body [OF m, of "Value ''5e88''" ok_world]
      createVideo_multipart_body [OF m, of Undefined ok_world] m h
    by simp
qed

text \<open>
  C6. Mode equivalence. Let the SDK transport and the backend transport be mocked to
  deliver the same job \<open>j\<close> and the same blob \<open>b\<close>. Then for every operation and every
  input, a success in frontend mode and a success in backend mode return the same value;
  with an API key configured the two modes return the same result altogether; and for
  every input that passes validation that result is the success the operation promises:
  the job, nothing, or the blob.
\<close>

theorem mode_equivalence:
  assumes "mode cf = Frontend" and "mode cb = Backend"
    and "sdk_resolves w j b" and "proxy_resolves w j b"
  shows "(\<forall>x y. snd (invoke cf w op) = Inr x \<longrightarrow> snd (invoke cb w op) = Inr y \<longrightarrow> x = y) \<and>
         (truthy_string (clientApiKey cf) \<noteq> None \<longrightarrow>
            snd (invoke cf w op) = snd (invoke cb w op)) \<and>
         (validation op = None \<longrightarrow> snd (invoke cb w op) = Inr (promised op j b))"
proof (cases "truthy_string (clientApiKey cf)")
  case None
  with no_key_result [OF assms(1), of w op] backend_resolves [OF assms(2,4), of op]
  show ?thesis by simp
next
  case (Some k)
  with frontend_resolves [OF assms(1) _ assms(3), of k op] backend_resolves [OF assms(2,4), of op]
  show ?thesis by simp
qed

theorem mode_equivalence_witness:
  "mode (frontend_config (Value ''sk-test'')) = Frontend \<and>
   mode (backend_config (Value ''5e88'')) = Backend \<and>
   sdk_resolves ok_world sample_job sample_blob \<and>
   proxy_resolves ok_world sample_job sample_blob \<and>
   snd (invoke (frontend_config (Value ''sk-test'')) ok_world (CreateVideo (cat_params ''8''))) =
     Inr (Job sample_job) \<and>
   snd (invoke (backend_config (Value ''5e88'')) ok_world (CreateVideo (cat_params ''8''))) =
     Inr (Job sample_job) \<and>
   snd (invoke (frontend_config (Value ''sk-test'')) ok_world (DownloadContent ''video_123'' None)) =
     Inr (Content sample_blob) \<and>
   snd (invoke (backend_config (Value ''5e88'')) ok_world (DownloadContent ''video_123'' None)) =
     Inr (Content sample_blob)"
proof -
  have m: "mode (frontend_config (Value ''sk-test'')) = Frontend"
    "mode (backend_config (Value ''5e88'')) = Backend"
    by (simp_all add: frontend_config_def backend_config_def)
  have k: "truthy_string (clientApiKey (frontend_config (Value ''sk-test''))) = Some ''sk-test''"
    by (simp add: frontend_config_def truthy_string_def)
  have v: "validation (CreateVideo (cat_params ''8'')) = None"
    by (simp add: cat_params_def eval_seconds_8 eval_size_720)
  note eq = mode_equivalence [OF m sdk_resolves_ok_world proxy_resolves_ok_world]
  show ?thesis
    using eq [of "CreateVideo (cat_params ''8'')"] eq [of "DownloadContent ''video_123'' None"]
      m k v sdk_resolves_ok_world proxy_resolves_ok_world
    by simp
qed

text \<open>
  C7. Credential and hash stay apart. In backend mode the events of a call (every request:
  address, method, headers, body) and its result do not depend on the API key: two
  configurations that differ only in \<^verbatim>\<open>clientApiKey\<close> behave alike. In frontend mode
  nothing depends on the password hash: it reaches neither the SDK client nor any call.
\<close>

theorem secrets_stay_in_their_mode:
  "(mode config = Backend \<longrightarrow>
      invoke (config\<lparr>clientApiKey := k1\<rparr>) w op = invoke (config\<lparr>clientApiKey := k2\<rparr>) w op) \<and>
   (mode config = Frontend \<longrightarrow>
      invoke (config\<lparr>clientPasswordHash := h1\<rparr>) w op =
      invoke (config\<lparr>clientPasswordHash := h2\<rparr>) w op)"
  by (cases op)
    (simp_all add: ops_defs hash_headers_def Let_def
      cong: sum.case_cong option.case_cong if_cong)

theorem secrets_stay_in_their_mode_witness:
  "mode (backend_config (Value ''5e88'')) = Backend \<and>
   invoke ((backend_config (Value ''5e88''))\<lparr>clientApiKey := Value ''sk-one''\<rparr>) ok_world
     (RemixVideo ''video_123'' ''dog'') =
   invoke ((backend_config (Value ''5e88''))\<lparr>clientApiKey := Undefined\<rparr>) ok_world
     (RemixVideo ''video_123'' ''dog'') \<and>
   mode (frontend_config (Value ''sk-test'')) = Frontend \<and>
   invoke ((frontend_config (Value ''sk-test''))\<lparr>clientPasswordHash := Value ''5e88''\<rparr>) ok_world
     (DeleteVideo ''video_123'') =
   invoke ((frontend_config (Value ''sk-test''))\<lparr>clientPasswordHash := Null\<rparr>) ok_world
     (DeleteVideo ''video_123'')"
proof -
  have m: "mode (frontend_config (Value ''sk-test'')) = Frontend"
    "mode (backend_config (Value ''5e88'')) = Backend"
    by (simp_all add: frontend_config_def backend_config_def)
  show ?thesis
    using secrets_stay_in_their_mode
        [of "backend_config (Value ''5e88'')" "Value ''sk-one''" ok_world
          "RemixVideo ''video_123'' ''dog''" Undefined]
      secrets_stay_in_their_mode
        [of "frontend_config (Value ''sk-test'')" _ ok_world "DeleteVideo ''video_123''" _
          "Value ''5e88''" Null]
      m
    by simp
qed

text \<open>
  C8. \<^verbatim>\<open>normalizeSize\<close> returns its argument unchanged when it has the form
  \<open><digits>x<digits>\<close>, and fails with the error \<open>Invalid video size format\<close> when it has
  not; the two numbers are not bounded in either direction.
\<close>

theorem normalizeSize_spec:
  "(matches_size v \<longrightarrow> normalizeSize v = Inr v) \<and>
   (\<not> matches_size v \<longrightarrow>
      normalizeSize v = Inl (Error (''Invalid video size format: '' @ v @
         ''. Must be in format WIDTHxHEIGHT (e.g., 1280x720)'')))"
  by (simp add: normalizeSize_def test_sizeRegex)

theorem normalizeSize_spec_witness:
  "matches_size ''1280x720'' \<and> normalizeSize ''1280x720'' = Inr ''1280x720'' \<and>
   matches_size ''0x99999999999999999999'' \<and>
   normalizeSize ''0x99999999999999999999'' = Inr ''0x99999999999999999999'' \<and>
   \<not> matches_size ''1280*720'' \<and>
   normalizeSize ''1280*720'' = Inl (Error
     ''Invalid video size format: 1280*720. Must be in format WIDTHxHEIGHT (e.g., 1280x720)'')"
proof -
  have a: "matches_size ''1280x720''"
    unfolding matches_size_def
    by (rule exI [of _ "''1280''"], rule exI [of _ "''720''"]) (simp add: digits_def isDigit_def)
  have b: "matches_size ''0x99999999999999999999''"
    unfolding matches_size_def
    by (rule exI [of _ "''0''"], rule exI [of _ "''99999999999999999999''"])
      (simp add: digits_def isDigit_def)
  have c: "\<not> matches_size ''1280*720''"
    by (simp add: test_sizeRegex [symmetric] sizeRegex_def isDigit_def)
  show ?thesis
    using a b c normalizeSize_spec [of "''1280x720''"]
      normalizeSize_spec [of "''0x99999999999999999999''"] normalizeSize_spec [of "''1280*720''"]
    by simp
qed

text \<open>
  C9. \<^verbatim>\<open>downloadContent\<close> called without a variant behaves as with the variant
  \<open>video\<close>: in frontend mode the SDK call receives the variant \<open>video\<close>, in backend mode
  the address fetched carries \<open>variant=video\<close>.
\<close>

theorem downloadContent_default_variant:
  "downloadContent config w videoId None = downloadContent config w videoId (Some Video) \<and>
   (mode config = Frontend \<longrightarrow>
      (\<forall>key. truthy_string (clientApiKey config) = Some key \<longrightarrow>
         fst (downloadContent config w videoId None) =
           [NewClient key (baseURL config), SdkCall (VideosDownloadContent videoId Video)])) \<and>
   (mode config \<noteq> Frontend \<longrightarrow>
      fst (downloadContent config w videoId None) =
        [FetchCall \<lparr>url = ''/api/videos/'' @ videoId @ ''/content?variant=video'' @
                      (case truthy_string (clientPasswordHash config) of
                         Some h \<Rightarrow> ''&password-hash='' @ encodeURIComponent h
                       | None \<Rightarrow> []),
                    http_method = None, headers = hash_headers config, body = None\<rparr>])"
  by (auto simp: downloadContent_def Let_def split: option.splits)

theorem downloadContent_default_variant_witness:
  "mode (frontend_config (Value ''sk-test'')) = Frontend \<and>
   truthy_string (clientApiKey (frontend_config (Value ''sk-test''))) = Some ''sk-test'' \<and>
   fst (downloadContent (frontend_config (Value ''sk-test'')) ok_world ''video_123'' None) =
     [NewClient ''sk-test'' None, SdkCall (VideosDownloadContent ''video_123'' Video)] \<and>
   mode (backend_config (Value ''5e/8 8'')) \<noteq> Frontend \<and>
   fst (downloadContent (backend_config (Value ''5e/8 8'')) ok_world ''video_123'' None) =
     [FetchCall \<lparr>url = ''/api/videos/video_123/content?variant=video&password-hash=5e%2F8%208'',
                 http_method = None, headers = [(''x-password-hash'', ''5e/8 8'')],
                 body = None\<rparr>]"
proof -
  have m: "mode (frontend_config (Value ''sk-test'')) = Frontend"
    "mode (backend_config (Value ''5e/8 8'')) \<noteq> Frontend"
    by (simp_all add: frontend_config_def backend_config_def)
  have k: "truthy_string (clientApiKey (frontend_config (Value ''sk-test''))) = Some ''sk-test''"
    by (simp add: frontend_config_def truthy_string_def)
  have h: "truthy_string (clientPasswordHash (backend_config (Value ''5e/8 8''))) = Some ''5e/8 8''"
    by (simp add: backend_config_def truthy_string_def)
  have b: "baseURL (frontend_config (Value ''sk-test'')) = None"
    by (simp add: frontend_config_def)
  show ?thesis
    using downloadContent_default_variant
        [of "frontend_config (Value ''sk-test'')" ok_world "''video_123''", THEN conjunct2]
      downloadContent_default_variant
        [of "backend_config (Value ''5e/8 8'')" ok_world "''video_123''", THEN conjunct2]
      m k h b encode_sample
    by (simp add: hash_headers_def)
qed

text \<open>
  C10 (as amended). In backend mode no operation needs a password hash. Every call whose
  input passes the validation of \<^verbatim>\<open>createVideo\<close> (the other operations validate nothing)
  issues exactly one request; a call that issues none has failed with the validation
  error, never with the missing-key error. When no hash is configured (\<^verbatim>\<open>undefined\<close>,
  \<^verbatim>\<open>null\<close> or empty), the request goes to the plain address of the operation, with no
  \<open>password-hash\<close> parameter appended, no \<open>x-password-hash\<close> header and no
  \<open>passwordHash\<close> form field; when the hash is \<^verbatim>\<open>undefined\<close>, the JSON body of a remix
  has no \<open>passwordHash\<close> key.
\<close>

theorem backend_needs_no_hash:
  assumes "mode config = Backend"
  shows "(validation op = None \<longrightarrow>
            (\<exists>rq. fst (invoke config w op) = [FetchCall rq] \<and>
               (truthy_string (clientPasswordHash config) = None \<longrightarrow>
                  url rq = endpoint op \<and>
                  ''x-password-hash'' \<notin> set (map fst (headers rq)) \<and>
                  ''passwordHash'' \<notin> set (form_fields (body rq))) \<and>
               (clientPasswordHash config = Undefined \<longrightarrow>
                  ''passwordHash'' \<notin> set (json_keys (body rq))))) \<and>
         (\<forall>e. validation op = Some e \<longrightarrow>
            invoke config w op = ([], Inl e) \<and>
            e \<noteq> Error ''API key is required for frontend mode'')"
  using backend_issues_request [OF assms, of op w] validation_fails [of op _ config w]
    validation_not_key_error [of op]
  by blast

theorem backend_needs_no_hash_witness:
  "mode (backend_config Null) = Backend \<and>
   validation (DownloadContent ''video_123'' (Some Thumbnail)) = None \<and>
   truthy_string (clientPasswordHash (backend_config Null)) = None \<and>
   fst (invoke (backend_config Null) ok_world (DownloadContent ''video_123'' (Some Thumbnail))) =
     [FetchCall \<lparr>url = ''/api/videos/video_123/content?variant=thumbnail'', http_method = None,
                 headers = [], body = None\<rparr>] \<and>
   validation (CreateVideo (cat_params ''abc'')) =
     Some (Error ''Invalid duration: abc. Duration must be a positive number.'') \<and>
   invoke (backend_config Null) ok_world (CreateVideo (cat_params ''abc'')) =
     ([], Inl (Error ''Invalid duration: abc. Duration must be a positive number.''))"
proof -
  have m: "mode (backend_config Null) = Backend"
    by (simp add: backend_config_def)
  have h: "truthy_string (clientPasswordHash (backend_config Null)) = None"
    by (simp add: backend_config_def truthy_string_def)
  have v: "validation (DownloadContent ''video_123'' (Some Thumbnail)) = None"
    by simp
  have a: "validation (CreateVideo (cat_params ''abc'')) =
     Some (Error ''Invalid duration: abc. Duration must be a positive number.'')"
    by (simp add: cat_params_def normalizeSeconds_def parseInt10_def isWhiteSpace_def isDigit_def)
  have t: "fst (invoke (backend_config Null) ok_world (DownloadContent ''video_123'' (Some Thumbnail))) =
     [FetchCall \<lparr>url = ''/api/videos/video_123/content?variant=thumbnail'', http_method = None,
                 headers = [], body = None\<rparr>]"
    using m h by (simp add: downloadContent_def hash_headers_def Let_def)
  show ?thesis
    using backend_needs_no_hash [OF m, of "DownloadContent ''video_123'' (Some Thumbnail)" ok_world]
      backend_needs_no_hash [OF m, of "CreateVideo (cat_params ''abc'')" ok_world]
      m h v a t
    by simp
qed

text \<open>
  C10 as the specification states it fails: in backend mode \<^verbatim>\<open>createVideo\<close> with the
  size \<open>1280*720\<close> issues no request at all.
\<close>

theorem createVideo_backend_validates_first:
  "mode (backend_config (Value ''5e88'')) = Backend \<and>
   invoke (backend_config (Value ''5e88'')) ok_world
     (CreateVideo \<lparr>model = ''sora-2'', prompt = ''cat'', video_size = ''1280*720'',
                   seconds = ''8'', input_reference = None\<rparr>) =
   ([], Inl (Error
     ''Invalid video size format: 1280*720. Must be in format WIDTHxHEIGHT (e.g., 1280x720)'')) \<and>
   fst (invoke (backend_config (Value ''5e88'')) ok_world
     (CreateVideo \<lparr>model = ''sora-2'', prompt = ''cat'', video_size = ''1280*720'',
                   seconds = ''8'', input_reference = None\<rparr>)) = []"
  by (simp add: backend_config_def createVideo_def eval_seconds_8 normalizeSize_def sizeRegex_def
      isDigit_def)


end
